theory Spec2Isabelle
  imports Main "HOL-Library.AList"
begin

section \<open>Python values and exceptions\<close>

text \<open>
  The values that \<^verbatim>\<open>json.loads\<close> produces: \<^verbatim>\<open>None\<close>, booleans, integers, floats
  (carried as their literal text, no arithmetic is done on them), strings, lists and
  dictionaries (association lists, the first binding of a key is the one looked up).
  Strings are byte lists; the source's strings are sequences of code points, which is the
  same thing for ASCII text.
\<close>

datatype json =
    JNull
  | JBool bool
  | JInt int
  | JFloat string
  | JString string
  | JArray "json list"
  | JObject "(string \<times> json) list"

text \<open>The exceptions the modelled code can raise; a \<^verbatim>\<open>TypeError\<close> carries its cause.\<close>

datatype type_error =
    NotIterable
  | NotSubscriptable
  | BadIndex
  | Unhashable
  | NotJSONText

datatype error =
    ValueError
  | TypeError type_error
  | KeyError
  | NameError
  | UnboundLocalError

datatype 'a outcome = Return 'a | Raise error

section \<open>The state of a \<^verbatim>\<open>BrowserView\<close> and of the module\<close>

text \<open>
  Everything a call does to the toolkit, to the signals of the window and to semaphores is
  appended to a trace, in program order.
\<close>

datatype action =
    Closing_set
  | Semaphore_release nat
  | Main_iteration
  | Window_destroy
  | Instances_del string
  | Windows_remove string
  | Closed_set
  | Main_quit
  | Dialog_run
  | Dialog_destroy
  | Run_javascript string "string option"
  | Bridge_call json json json
  | Loaded_set
  | Loaded_clear
  | Load_uri string
  | Load_html string string
  | Window_move string int int

text \<open>
  A callback handed to \<^verbatim>\<open>glib.idle_add\<close>, and a tuple put on the queue
  \<^verbatim>\<open>mp_idle_add\<close> that the worker process drains.
\<close>

datatype idle_cb =
    Idle_evaluate_js string string
  | Idle_create_bridge
  | Idle_move int int string

datatype deferred =
    Deferred_move int int string

text \<open>
  An entry of \<^verbatim>\<open>self.js_results\<close>: the dictionary
  \<^verbatim>\<open>{'semaphore': result_semaphore, 'result': None}\<close>. A semaphore is an object, shared
  between the entry and the local variable of the call that made it, so the entry holds
  its address and the permits live in a store.
\<close>

record js_entry =
  semaphore :: nat
  result :: json

text \<open>
  The fields of one \<^verbatim>\<open>BrowserView\<close> (\<^verbatim>\<open>self\<close>), the signals and the
  \<^verbatim>\<open>confirm_close\<close> flag of its \<^verbatim>\<open>pywebview_window\<close>, the semaphore store, the class
  attribute \<^verbatim>\<open>BrowserView.instances\<close> (uid to object identity), the global list
  \<^verbatim>\<open>windows\<close> (windows named by their uid), \<^verbatim>\<open>gtk.main_level()\<close>, the callbacks queued
  by \<^verbatim>\<open>glib.idle_add\<close>, the queue \<^verbatim>\<open>mp_idle_add\<close>, the trace and the debug log.
\<close>

record state =
  uid :: string
  confirm_close :: bool
  js_results :: "(string \<times> js_entry) list"
  closing :: bool
  closed :: bool
  loaded :: bool
  permits :: "nat \<Rightarrow> nat"
  sem_count :: nat
  instances :: "(string \<times> nat) list"
  windows :: "string list"
  main_level :: nat
  idle :: "idle_cb list"
  mp_idle_add :: "deferred list"
  trace :: "action list"
  log :: "string list"

definition emit :: "action \<Rightarrow> state \<Rightarrow> state" where
  "emit a st = st\<lparr>trace := trace st @ [a]\<rparr>"

section \<open>Teardown\<close>

text \<open>\<^verbatim>\<open>Semaphore.release()\<close> on the semaphore at an address.\<close>

definition semaphore_release :: "nat \<Rightarrow> state \<Rightarrow> state" where
  "semaphore_release a st =
     emit (Semaphore_release a) (st\<lparr>permits := (permits st)(a := permits st a + 1)\<rparr>)"

text \<open>
  \<^verbatim>\<open>for res in self.js_results.values(): res['semaphore'].release()\<close>, in the order of the
  dictionary.
\<close>

fun release_all :: "js_entry list \<Rightarrow> state \<Rightarrow> state" where
  "release_all [] st = st"
| "release_all (res # rest) st = release_all rest (semaphore_release (semaphore res) st)"

text \<open>
  \<^verbatim>\<open>while gtk.events_pending(): gtk.main_iteration()\<close>. The toolkit decides how often
  \<^verbatim>\<open>events_pending\<close> answers true: that number is the argument. What the toolkit
  dispatches inside an iteration is the toolkit's business and is not modelled.
\<close>

fun main_iterations :: "nat \<Rightarrow> state \<Rightarrow> state" where
  "main_iterations 0 st = st"
| "main_iterations (Suc n) st = main_iterations n (emit Main_iteration st)"

text \<open>
  \<^verbatim>\<open>gtk.main_quit()\<close> ends the innermost invocation of the main loop.
\<close>

definition main_quit :: "state \<Rightarrow> state" where
  "main_quit st = emit Main_quit (st\<lparr>main_level := main_level st - 1\<rparr>)"

text \<open>
  \<^verbatim>\<open>BrowserView.close_window\<close>. The only statement that can raise is
  \<^verbatim>\<open>del BrowserView.instances[self.uid]\<close>, with what was done before it left in place.
\<close>

definition close_window :: "nat \<Rightarrow> state \<Rightarrow> unit outcome \<times> state" where
  "close_window pending st =
     (let st1 = emit Closing_set (st\<lparr>closing := True\<rparr>);
          st2 = release_all (map snd (js_results st1)) st1;
          st3 = main_iterations pending st2;
          st4 = emit Window_destroy st3
      in if map_of (instances st4) (uid st4) = None then (Raise KeyError, st4)
         else
           let st5 = emit (Instances_del (uid st4))
                       (st4\<lparr>instances := AList.delete (uid st4) (instances st4)\<rparr>);
               st6 = (if uid st5 \<in> set (windows st5)
                      then emit (Windows_remove (uid st5))
                             (st5\<lparr>windows := remove1 (uid st5) (windows st5)\<rparr>)
                      else st5);
               st7 = emit Closed_set (st6\<lparr>closed := True\<rparr>)
           in (Return (), if instances st7 = [] then main_quit st7 else st7))"

text \<open>
  The answer of the confirmation dialog (\<^verbatim>\<open>dialog.run()\<close>): one of the two buttons, or
  the dialog was dismissed.
\<close>

datatype response = RESPONSE_OK | RESPONSE_CANCEL | RESPONSE_DELETE_EVENT | RESPONSE_NONE

text \<open>
  \<^verbatim>\<open>BrowserView.on_destroy\<close>: the dialog is built and run, teardown happens on
  \<^verbatim>\<open>ResponseType.OK\<close> only, the dialog is destroyed, and the handler returns \<^verbatim>\<open>True\<close>.
\<close>

definition on_destroy :: "response \<Rightarrow> nat \<Rightarrow> state \<Rightarrow> bool outcome \<times> state" where
  "on_destroy answer pending st =
     (let st1 = emit Dialog_run st
      in if answer = RESPONSE_OK
         then (case close_window pending st1 of
                 (Raise e, st2) \<Rightarrow> (Raise e, st2)
               | (Return _, st2) \<Rightarrow> (Return True, emit Dialog_destroy st2))
         else (Return True, emit Dialog_destroy st1))"

text \<open>
  The handler that \<^verbatim>\<open>__init__\<close> connects to \<^verbatim>\<open>delete-event\<close>: \<^verbatim>\<open>on_destroy\<close> when
  the window has \<^verbatim>\<open>confirm_close\<close>, \<^verbatim>\<open>close_window\<close> otherwise. The value is what the
  handler returns to the toolkit (\<^verbatim>\<open>None\<close> from \<^verbatim>\<open>close_window\<close>).
\<close>

definition delete_event :: "response \<Rightarrow> nat \<Rightarrow> state \<Rightarrow> bool option outcome \<times> state" where
  "delete_event answer pending st =
     (if confirm_close st
      then (case on_destroy answer pending st of
              (Raise e, st') \<Rightarrow> (Raise e, st')
            | (Return b, st') \<Rightarrow> (Return (Some b), st'))
      else (case close_window pending st of
              (Raise e, st') \<Rightarrow> (Raise e, st')
            | (Return _, st') \<Rightarrow> (Return None, st')))"

section \<open>What the module takes from its environment\<close>

text \<open>
  The values a native handler can give back that the bridge's round trip is about:
  \<^verbatim>\<open>None\<close>, booleans, integers, floats (as their text) and strings.
\<close>

datatype prim = PNone | PBool bool | PInt int | PFloat string | PStr string

text \<open>
  The module reads the version of the renderer and the flag \<^verbatim>\<open>_multiprocessing\<close>, and
  calls functions that are not part of this file: \<^verbatim>\<open>json.loads\<close> of the standard
  library (\<open>None\<close> stands for the decode error, a \<^verbatim>\<open>ValueError\<close>), and
  \<^verbatim>\<open>escape_string\<close>, \<^verbatim>\<open>js_bridge_call\<close>, \<^verbatim>\<open>parse_api_js\<close> (the script it builds for
  the window) and \<^verbatim>\<open>parse_file_type\<close> of the package (\<open>None\<close> stands for the
  \<^verbatim>\<open>ValueError\<close> of \<^verbatim>\<open>parse_file_type\<close>). They are parameters.
\<close>

record cfg =
  webkit_ver :: "nat \<times> nat \<times> nat"
  multiprocessing :: bool
  json_loads :: "string \<Rightarrow> json option"
  escape_string :: "string \<Rightarrow> string"
  js_bridge_call :: "json \<Rightarrow> json \<Rightarrow> json \<Rightarrow> prim outcome"
  parse_api_js :: string
  parse_file_type :: "string \<Rightarrow> (string \<times> string) option"

text \<open>\<^verbatim>\<open>old_webkit = webkit_ver[0] < 2 or webkit_ver[1] < 22\<close>\<close>

definition old_webkit :: "cfg \<Rightarrow> bool" where
  "old_webkit c = (case webkit_ver c of (major, minor, micro) \<Rightarrow> major < 2 \<or> minor < 22)"

section \<open>Operators of Python on decoded values\<close>

text \<open>\<^verbatim>\<open>k in s\<close> for two strings: \<open>k\<close> occurs in \<open>s\<close> as a contiguous piece.\<close>

definition substring :: "string \<Rightarrow> string \<Rightarrow> bool" where
  "substring k s = list_ex (\<lambda>i. take (length k) (drop i s) = k) [0..<Suc (length s)]"

text \<open>
  \<^verbatim>\<open>k in v\<close> for a string \<open>k\<close>: a key of a dictionary, an element of a list, a piece of
  a string; anything else is not iterable.
\<close>

fun py_in :: "string \<Rightarrow> json \<Rightarrow> bool outcome" where
  "py_in k (JObject kvs) = Return (map_of kvs k \<noteq> None)"
| "py_in k (JArray xs) = Return (JString k \<in> set xs)"
| "py_in k (JString s) = Return (substring k s)"
| "py_in k _ = Raise (TypeError NotIterable)"

text \<open>\<^verbatim>\<open>v[k]\<close> for a string \<open>k\<close>.\<close>

fun py_getitem :: "json \<Rightarrow> string \<Rightarrow> json outcome" where
  "py_getitem (JObject kvs) k = (case map_of kvs k of None \<Rightarrow> Raise KeyError | Some v \<Rightarrow> Return v)"
| "py_getitem (JArray xs) k = Raise (TypeError BadIndex)"
| "py_getitem (JString s) k = Raise (TypeError BadIndex)"
| "py_getitem _ k = Raise (TypeError NotSubscriptable)"

text \<open>\<^verbatim>\<open>v[k] if k in v else None\<close>\<close>

definition py_get_or_none :: "json \<Rightarrow> string \<Rightarrow> json outcome" where
  "py_get_or_none v k =
     (case py_in k v of
        Raise e \<Rightarrow> Raise e
      | Return present \<Rightarrow> if present then py_getitem v k else Return JNull)"

text \<open>
  \<^verbatim>\<open>self.js_results[unique_id]\<close> for a decoded \<open>unique_id\<close>. The keys of the table are
  strings: a list or a dictionary cannot be hashed, and a number, a boolean or \<^verbatim>\<open>None\<close>
  equals no key.
\<close>

fun js_results_getitem :: "(string \<times> js_entry) list \<Rightarrow> json \<Rightarrow> (string \<times> js_entry) outcome" where
  "js_results_getitem tbl (JString k) =
     (case map_of tbl k of None \<Rightarrow> Raise KeyError | Some e \<Rightarrow> Return (k, e))"
| "js_results_getitem tbl (JArray xs) = Raise (TypeError Unhashable)"
| "js_results_getitem tbl (JObject kvs) = Raise (TypeError Unhashable)"
| "js_results_getitem tbl _ = Raise KeyError"

text \<open>\<^verbatim>\<open>json.loads(v)\<close> for a value of the program: only text is decoded.\<close>

fun loads :: "cfg \<Rightarrow> json \<Rightarrow> json outcome" where
  "loads c (JString s) = (case json_loads c s of None \<Rightarrow> Raise ValueError | Some v \<Rightarrow> Return v)"
| "loads c _ = Raise (TypeError NotJSONText)"

text \<open>\<^verbatim>\<open>str(v)\<close> for the values of \<^typ>\<open>prim\<close>; integers are printed in decimal.\<close>

definition digit_char :: "nat \<Rightarrow> char" where
  "digit_char d = char_of (48 + d)"

function nat_str :: "nat \<Rightarrow> string" where
  "nat_str n = (if n < 10 then [digit_char n] else nat_str (n div 10) @ [digit_char (n mod 10)])"
  by pat_completeness auto
termination
  by (relation "measure id") auto

declare nat_str.simps [simp del]

definition int_str :: "int \<Rightarrow> string" where
  "int_str i = (if i < 0 then CHR ''-'' # nat_str (nat (- i)) else nat_str (nat i))"

fun py_str :: "prim \<Rightarrow> string" where
  "py_str PNone = ''None''"
| "py_str (PBool b) = (if b then ''True'' else ''False'')"
| "py_str (PInt i) = int_str i"
| "py_str (PFloat r) = r"
| "py_str (PStr s) = s"

section \<open>Synchronous evaluation of a script\<close>

text \<open>
  \<^verbatim>\<open>BrowserView.evaluate_js\<close> runs on the caller's thread and blocks twice, on
  \<^verbatim>\<open>self.loaded.wait()\<close> and on \<^verbatim>\<open>result_semaphore.acquire()\<close>, while the UI loop and
  teardown run in between. A call is therefore a small machine, one step per stretch of
  code between two blocking points; its state holds the local variables that are still
  needed. The first state carries the value \<^verbatim>\<open>uuid1().hex\<close> is about to give.
  What runs on the UI loop (teardown, a queued callback, a callback of the renderer) is
  a step of its own: a call moves before it or after it.
\<close>

datatype ejs =
    Ejs_start string string
  | Ejs_wait_loaded string nat string
  | Ejs_acquire string nat
  | Ejs_resume string
  | Ejs_returned json
  | Ejs_raised error

text \<open>
  The script that is submitted when the renderer is old:
  \<^verbatim>\<open>'document.title = JSON.stringify({{"type": "eval", "uid": "{0}", "result": {1}}})'.format(unique_id, script)\<close>
\<close>

definition title_script :: "string \<Rightarrow> string \<Rightarrow> string" where
  \<open>title_script unique_id script =
     ''document.title = JSON.stringify({"type": "eval", "uid": "'' @ unique_id
     @ ''", "result": '' @ script @ ''})''\<close>

text \<open>
  \<^verbatim>\<open>None if result == 'undefined' or result == 'null' or result is None else result if result == '' else json.loads(result)\<close>
\<close>

definition decode_result :: "cfg \<Rightarrow> json \<Rightarrow> json outcome" where
  "decode_result c r =
     (if r = JString ''undefined'' \<or> r = JString ''null'' \<or> r = JNull then Return JNull
      else if r = JString [] then Return r
      else loads c r)"

text \<open>
  One step of a call; \<open>None\<close> when the call is blocked (or is over).
  \<^item> \<open>Ejs_start\<close>: the semaphore is made with no permit, the entry is stored, the script is
    wrapped when the renderer is old.
  \<^item> \<open>Ejs_wait_loaded\<close>: \<^verbatim>\<open>self.loaded.wait()\<close>, then \<^verbatim>\<open>glib.idle_add(_evaluate_js)\<close>.
  \<^item> \<open>Ejs_acquire\<close>: \<^verbatim>\<open>result_semaphore.acquire()\<close>.
  \<^item> \<open>Ejs_resume\<close>: the rest, from the test of \<^verbatim>\<open>gtk.main_level()\<close> on.
\<close>

fun evaluate_js_step :: "cfg \<Rightarrow> ejs \<Rightarrow> state \<Rightarrow> (ejs \<times> state) option" where
  "evaluate_js_step c (Ejs_start script unique_id) st =
     (let result_semaphore = sem_count st;
          st1 = st\<lparr>permits := (permits st)(result_semaphore := 0),
                   sem_count := Suc result_semaphore\<rparr>;
          st2 = st1\<lparr>js_results :=
                     AList.update unique_id \<lparr>semaphore = result_semaphore, result = JNull\<rparr>
                       (js_results st1)\<rparr>
      in Some (Ejs_wait_loaded unique_id result_semaphore
                 (if old_webkit c then title_script unique_id script else script), st2))"
| "evaluate_js_step c (Ejs_wait_loaded unique_id result_semaphore script) st =
     (if loaded st
      then Some (Ejs_acquire unique_id result_semaphore,
                 st\<lparr>idle := idle st @ [Idle_evaluate_js script unique_id]\<rparr>)
      else None)"
| "evaluate_js_step c (Ejs_acquire unique_id result_semaphore) st =
     (if permits st result_semaphore = 0 then None
      else Some (Ejs_resume unique_id,
                 st\<lparr>permits := (permits st)(result_semaphore := permits st result_semaphore - 1)\<rparr>))"
| "evaluate_js_step c (Ejs_resume unique_id) st =
     (if main_level st = 0 then Some (Ejs_returned JNull, st)
      else case map_of (js_results st) unique_id of
             None \<Rightarrow> Some (Ejs_raised KeyError, st)
           | Some e \<Rightarrow>
               (case decode_result c (result e) of
                  Raise err \<Rightarrow> Some (Ejs_raised err, st)
                | Return v \<Rightarrow>
                    Some (Ejs_returned v,
                          st\<lparr>js_results := AList.delete unique_id (js_results st)\<rparr>)))"
| "evaluate_js_step c (Ejs_returned v) st = None"
| "evaluate_js_step c (Ejs_raised e) st = None"

text \<open>A call runs until it blocks or is over, for at most \<open>n\<close> steps.\<close>

fun evaluate_js_run :: "cfg \<Rightarrow> nat \<Rightarrow> ejs \<Rightarrow> state \<Rightarrow> ejs \<times> state" where
  "evaluate_js_run c 0 t st = (t, st)"
| "evaluate_js_run c (Suc n) t st =
     (case evaluate_js_step c t st of
        None \<Rightarrow> (t, st)
      | Some (t', st') \<Rightarrow> evaluate_js_run c n t' st')"


text \<open>
  \<^verbatim>\<open>_set_js_api\<close> queues \<^verbatim>\<open>create_bridge\<close>; \<^verbatim>\<open>load_url\<close> and \<^verbatim>\<open>load_html\<close> clear
  \<open>loaded\<close> and start the navigation.
\<close>

definition p_set_js_api :: "state \<Rightarrow> state" where
  "p_set_js_api st = st\<lparr>idle := idle st @ [Idle_create_bridge]\<rparr>"

definition load_url :: "string \<Rightarrow> state \<Rightarrow> state" where
  "load_url url st = emit (Load_uri url) (emit Loaded_clear (st\<lparr>loaded := False\<rparr>))"

definition load_html :: "string \<Rightarrow> string \<Rightarrow> state \<Rightarrow> state" where
  "load_html content base_uri st =
     emit (Load_html content base_uri) (emit Loaded_clear (st\<lparr>loaded := False\<rparr>))"

text \<open>
  The UI loop runs a queued callback. \<^verbatim>\<open>_evaluate_js\<close> submits the script, with the
  completion callback of the call unless the renderer is old; \<^verbatim>\<open>create_bridge\<close> runs the
  script of the API and sets \<open>loaded\<close> (nothing else in the process of the window does;
  \<^verbatim>\<open>mp_event_loop\<close> repeats it in the controller process); the callback queued by \<^verbatim>\<open>_move\<close> is \<^verbatim>\<open>BrowserView.instances[uid].move(x, y)\<close>.
\<close>

fun run_idle :: "cfg \<Rightarrow> idle_cb \<Rightarrow> state \<Rightarrow> unit outcome \<times> state" where
  "run_idle c (Idle_evaluate_js script unique_id) st =
     (Return (), emit (Run_javascript script (if old_webkit c then None else Some unique_id)) st)"
| "run_idle c Idle_create_bridge st =
     (Return (), emit Loaded_set (emit (Run_javascript (parse_api_js c) None) (st\<lparr>loaded := True\<rparr>)))"
| "run_idle c (Idle_move x y u) st =
     (if map_of (instances st) u = None then (Raise KeyError, st)
      else (Return (), emit (Window_move u x y) st))"

text \<open>
  The main loop takes the first queued callback and runs it, as long as it is running
  at all: after \<^verbatim>\<open>gtk.main_quit()\<close> has brought \<^verbatim>\<open>gtk.main_level()\<close> to zero nothing is
  dispatched any more. \<open>None\<close>: the loop does nothing.
\<close>

definition main_loop_step :: "cfg \<Rightarrow> state \<Rightarrow> (unit outcome \<times> state) option" where
  "main_loop_step c st =
     (if main_level st = 0 then None
      else case idle st of
             [] \<Rightarrow> None
           | cb # rest \<Rightarrow> Some (run_idle c cb (st\<lparr>idle := rest\<rparr>)))"

text \<open>
  The completion callback \<^verbatim>\<open>_callback\<close> of a call: \<open>val\<close> is the text of the script's
  value, or \<open>None\<close> when \<^verbatim>\<open>run_javascript_finish\<close> gives nothing.
\<close>

definition evaluate_js_callback :: "string \<Rightarrow> nat \<Rightarrow> string option \<Rightarrow> state \<Rightarrow> unit outcome \<times> state" where
  "evaluate_js_callback unique_id result_semaphore val st =
     (case map_of (js_results st) unique_id of
        None \<Rightarrow> (Raise KeyError, st)
      | Some e \<Rightarrow>
          (Return (),
           semaphore_release result_semaphore
             (st\<lparr>js_results :=
                   AList.update unique_id
                     (e\<lparr>result := (case val of None \<Rightarrow> JNull | Some s \<Rightarrow> JString s)\<rparr>)
                     (js_results st)\<rparr>)))"

section \<open>The title side channel\<close>

text \<open>The branch \<^verbatim>\<open>js_data['type'] == 'eval' and old_webkit\<close> of \<^verbatim>\<open>on_title_change\<close>.\<close>

definition title_eval :: "json \<Rightarrow> state \<Rightarrow> unit outcome \<times> state" where
  "title_eval js_data st =
     (case py_getitem js_data ''uid'' of
        Raise e \<Rightarrow> (Raise e, st)
      | Return unique_id \<Rightarrow>
     (case py_get_or_none js_data ''result'' of
        Raise e \<Rightarrow> (Raise e, st)
      | Return res \<Rightarrow>
     (case js_results_getitem (js_results st) unique_id of
        Raise e \<Rightarrow> (Raise e, st)
      | Return (k, js) \<Rightarrow>
          (Return (),
           semaphore_release (semaphore js)
             (st\<lparr>js_results := AList.update k (js\<lparr>result := res\<rparr>) (js_results st)\<rparr>)))))"

text \<open>
  \<^verbatim>\<open>JSBridge.call\<close>: the parameter \<^verbatim>\<open>'undefined'\<close> becomes \<^verbatim>\<open>None\<close>, and
  \<^verbatim>\<open>js_bridge_call\<close> is called; the trace records its arguments.
\<close>

definition JSBridge_call :: "cfg \<Rightarrow> json \<Rightarrow> json \<Rightarrow> json \<Rightarrow> state \<Rightarrow> prim outcome \<times> state" where
  "JSBridge_call c func_name param value_id st =
     (let param' = (if param = JString ''undefined'' then JNull else param)
      in (js_bridge_call c func_name param' value_id,
          emit (Bridge_call func_name param' value_id) st))"

text \<open>
  \<^verbatim>\<open>'pywebview._bridge.return_val = "{0}";'.format(escape_string(str(return_val)))\<close>
\<close>

definition return_val_code :: "cfg \<Rightarrow> prim \<Rightarrow> string" where
  \<open>return_val_code c return_val =
     ''pywebview._bridge.return_val = "'' @ escape_string c (py_str return_val) @ ''";''\<close>

text \<open>The branch \<^verbatim>\<open>js_data['type'] == 'invoke'\<close> of \<^verbatim>\<open>on_title_change\<close>.\<close>

definition title_invoke :: "cfg \<Rightarrow> json \<Rightarrow> state \<Rightarrow> unit outcome \<times> state" where
  "title_invoke c js_data st =
     (case py_getitem js_data ''function'' of
        Raise e \<Rightarrow> (Raise e, st)
      | Return func_name \<Rightarrow>
     (case py_getitem js_data ''id'' of
        Raise e \<Rightarrow> (Raise e, st)
      | Return value_id \<Rightarrow>
     (case py_get_or_none js_data ''param'' of
        Raise e \<Rightarrow> (Raise e, st)
      | Return param \<Rightarrow>
     (case JSBridge_call c func_name param value_id st of
        (Raise e, st1) \<Rightarrow> (Raise e, st1)
      | (Return return_val, st1) \<Rightarrow>
          (Return (), emit (Run_javascript (return_val_code c return_val) None) st1)))))"

text \<open>
  The body of the \<^verbatim>\<open>try\<close> after the title is decoded (\<^verbatim>\<open>js_data['type']\<close> is read
  once here, the source reads it again for the second test).
\<close>

definition title_dispatch :: "cfg \<Rightarrow> json \<Rightarrow> state \<Rightarrow> unit outcome \<times> state" where
  "title_dispatch c js_data st =
     (case py_in ''type'' js_data of
        Raise e \<Rightarrow> (Raise e, st)
      | Return present \<Rightarrow>
          if \<not> present then (Return (), st)
          else (case py_getitem js_data ''type'' of
                  Raise e \<Rightarrow> (Raise e, st)
                | Return ty \<Rightarrow>
                    if ty = JString ''eval'' \<and> old_webkit c then title_eval js_data st
                    else if ty = JString ''invoke'' then title_invoke c js_data st
                    else (Return (), st)))"

text \<open>\<^verbatim>\<open>'GTK: JSON decode failed:\n %s' % title\<close>\<close>

definition decode_failed :: "string \<Rightarrow> string" where
  "decode_failed title = ''GTK: JSON decode failed:'' @ [CHR 0x0A] @ '' '' @ title"

text \<open>
  \<^verbatim>\<open>BrowserView.on_title_change\<close>. \<open>title\<close> is what \<^verbatim>\<open>webview.get_title()\<close> gives,
  \<open>None\<close> when the page has no title (\<^verbatim>\<open>json.loads(None)\<close> is a \<^verbatim>\<open>TypeError\<close>). The two
  handlers catch \<^verbatim>\<open>ValueError\<close>, raised by the decoder or by anything else inside the
  \<^verbatim>\<open>try\<close>, and write the debug line; every other exception leaves the callback.
\<close>

definition on_title_change :: "cfg \<Rightarrow> string option \<Rightarrow> state \<Rightarrow> unit outcome \<times> state" where
  "on_title_change c title st =
     (case title of
        None \<Rightarrow> (Raise (TypeError NotJSONText), st)
      | Some t \<Rightarrow>
          (case (case json_loads c t of
                   None \<Rightarrow> (Raise ValueError, st)
                 | Some js_data \<Rightarrow> title_dispatch c js_data st) of
             (Raise ValueError, st') \<Rightarrow> (Return (), st'\<lparr>log := log st' @ [decode_failed t]\<rparr>)
           | r \<Rightarrow> r))"

section \<open>Module functions: moving a window\<close>

text \<open>
  \<^verbatim>\<open>_move(x, y, uid)\<close> hands the inner function, which moves the window of \<open>uid\<close>, to
  \<^verbatim>\<open>glib.idle_add\<close>.
\<close>

definition p_move :: "int \<Rightarrow> int \<Rightarrow> string \<Rightarrow> state \<Rightarrow> state" where
  "p_move x y u st = st\<lparr>idle := idle st @ [Idle_move x y u]\<rparr>"

text \<open>
  \<^verbatim>\<open>move(x, y, uid)\<close>. With \<^verbatim>\<open>_multiprocessing\<close> the tuple \<^verbatim>\<open>(_move, x, y, uid)\<close> goes on
  the queue. Otherwise the source calls \<^verbatim>\<open>_move(title, uid)\<close>: \<^verbatim>\<open>title\<close> is bound neither in
  \<^verbatim>\<open>move\<close> nor in the module, so evaluating the argument raises \<^verbatim>\<open>NameError\<close> before
  anything is called.
\<close>

definition move :: "cfg \<Rightarrow> int \<Rightarrow> int \<Rightarrow> string \<Rightarrow> state \<Rightarrow> unit outcome \<times> state" where
  "move c x y u st =
     (if multiprocessing c
      then (Return (), st\<lparr>mp_idle_add := mp_idle_add st @ [Deferred_move x y u]\<rparr>)
      else (Raise NameError, st))"

text \<open>
  The worker's thread \<^verbatim>\<open>caller\<close> takes a tuple from the queue and calls
  \<^verbatim>\<open>data[0](*data[1:])\<close>.
\<close>

fun run_deferred :: "deferred \<Rightarrow> state \<Rightarrow> state" where
  "run_deferred (Deferred_move x y u) st = p_move x y u st"

section \<open>File dialogs\<close>

datatype dialog_type = OPEN_DIALOG | FOLDER_DIALOG | SAVE_DIALOG | OTHER_DIALOG

text \<open>
  What the user did with the chooser: the answer of \<^verbatim>\<open>dialog.run()\<close>, and what
  \<^verbatim>\<open>dialog.get_filename()\<close> and \<^verbatim>\<open>dialog.get_filenames()\<close> give afterwards.
\<close>

record chooser =
  answer :: response
  get_filename :: "string option"
  get_filenames :: "string list"

text \<open>The value of \<^verbatim>\<open>file_name\<close>: \<^verbatim>\<open>None\<close>, one string, or a list of strings.\<close>

datatype file_name = FN_none | FN_str string | FN_list "string list"

text \<open>
  \<^verbatim>\<open>_add_file_filters\<close> calls \<^verbatim>\<open>parse_file_type\<close> on every filter; its \<^verbatim>\<open>ValueError\<close>
  leaves the dialog.
\<close>

definition add_file_filters :: "cfg \<Rightarrow> string list \<Rightarrow> unit outcome" where
  "add_file_filters c file_types =
     (if list_all (\<lambda>s. parse_file_type c s \<noteq> None) file_types then Return ()
      else Raise ValueError)"

text \<open>
  \<^verbatim>\<open>BrowserView.create_file_dialog\<close>. A dialog type that is none of the three constants
  leaves \<^verbatim>\<open>title\<close> unbound where the chooser is built. \<open>directory\<close>, \<open>allow_multiple\<close> and
  \<open>save_filename\<close> go to the toolkit only.
\<close>

definition BrowserView_create_file_dialog ::
  "cfg \<Rightarrow> dialog_type \<Rightarrow> string \<Rightarrow> bool \<Rightarrow> string \<Rightarrow> string list \<Rightarrow> chooser \<Rightarrow> file_name outcome" where
  "BrowserView_create_file_dialog c dt directory allow_multiple save_filename file_types ch =
     (if dt = OTHER_DIALOG then Raise UnboundLocalError
      else case add_file_filters c file_types of
             Raise e \<Rightarrow> Raise e
           | Return _ \<Rightarrow>
               if answer ch = RESPONSE_OK
               then (if dt = SAVE_DIALOG
                     then Return (case get_filename ch of None \<Rightarrow> FN_none | Some s \<Rightarrow> FN_str s)
                     else Return (FN_list (get_filenames ch)))
               else Return FN_none)"

text \<open>
  What goes through the pipe: \<^verbatim>\<open>None\<close>, or the tuple \<^verbatim>\<open>tuple(result)\<close>. The tuple of a
  list has the elements of the list; the tuple of a string has its characters, each a
  string of length one.
\<close>

datatype sent = Sent_none | Sent_tuple "string list"

fun py_tuple :: "file_name \<Rightarrow> string list" where
  "py_tuple (FN_list xs) = xs"
| "py_tuple (FN_str s) = map (\<lambda>ch. [ch]) s"
| "py_tuple FN_none = []"

text \<open>
  \<^verbatim>\<open>_create_file_dialog\<close>, run by the UI loop: the value it sends, or the exception that
  leaves it before anything is sent.
\<close>

definition p_create_file_dialog ::
  "cfg \<Rightarrow> dialog_type \<Rightarrow> string \<Rightarrow> bool \<Rightarrow> string \<Rightarrow> string list \<Rightarrow> string \<Rightarrow> chooser \<Rightarrow> state
     \<Rightarrow> sent outcome" where
  "p_create_file_dialog c dt directory allow_multiple save_filename file_types u ch st =
     (if map_of (instances st) u = None then Raise KeyError
      else case BrowserView_create_file_dialog c dt directory allow_multiple save_filename
                  file_types ch of
             Raise e \<Rightarrow> Raise e
           | Return FN_none \<Rightarrow> Return Sent_none
           | Return r \<Rightarrow> Return (Sent_tuple (py_tuple r)))"

text \<open>
  \<^verbatim>\<open>create_file_dialog\<close> of the module: in both modes \<^verbatim>\<open>_create_file_dialog\<close> ends up on a
  UI loop with the sending end of a fresh pipe, and the caller returns what
  \<^verbatim>\<open>parent_conn.recv()\<close> gives. \<open>None\<close>: nothing is ever sent, the caller stays in
  \<^verbatim>\<open>recv\<close>.
\<close>

definition create_file_dialog ::
  "cfg \<Rightarrow> dialog_type \<Rightarrow> string \<Rightarrow> bool \<Rightarrow> string \<Rightarrow> string list \<Rightarrow> string \<Rightarrow> chooser \<Rightarrow> state
     \<Rightarrow> sent option" where
  "create_file_dialog c dt directory allow_multiple save_filename file_types u ch st =
     (case p_create_file_dialog c dt directory allow_multiple save_filename file_types u ch st of
        Raise e \<Rightarrow> None
      | Return v \<Rightarrow> Some v)"

section \<open>Sample inputs\<close>

text \<open>
  A renderer that reports results itself (WebKit 2.22), one process; the decoder is given
  on the few titles used below, as \<^verbatim>\<open>json.loads\<close> decodes them.
\<close>

definition sample_loads :: "string \<Rightarrow> json option" where
  \<open>sample_loads =
     map_of
       [(''42'', JInt 42),
        (''"My Page"'', JString ''My Page''),
        (''[1]'', JArray [JInt 1]),
        (''{"a": 1}'', JObject [(''a'', JInt 1)]),
        (''{"type": "invoke", "function": "f", "id": "x1", "param": "hello"}'',
         JObject [(''type'', JString ''invoke''), (''function'', JString ''f''),
                  (''id'', JString ''x1''), (''param'', JString ''hello'')]),
        (''{"type": "invoke", "function": "f", "id": "x1", "param": "undefined"}'',
         JObject [(''type'', JString ''invoke''), (''function'', JString ''f''),
                  (''id'', JString ''x1''), (''param'', JString ''undefined'')])]\<close>

definition sample_cfg :: cfg where
  "sample_cfg =
     \<lparr>webkit_ver = (2, 22, 0), multiprocessing = False, json_loads = sample_loads,
      escape_string = (\<lambda>s. s), js_bridge_call = (\<lambda>f p v. Return PNone),
      parse_api_js = ''window.pywebview = {}'',
      parse_file_type = (\<lambda>s. Some (s, s))\<rparr>"

text \<open>
  One window \<^verbatim>\<open>'master'\<close> that asks before closing, inside a running main loop, its
  page loaded, with one call \<^verbatim>\<open>'c1'\<close> in the table whose semaphore (at address 0) has no
  permit.
\<close>

definition sample_state :: state where
  "sample_state =
     \<lparr>uid = ''master'', confirm_close = True,
      js_results = [(''c1'', \<lparr>semaphore = 0, result = JNull\<rparr>)],
      closing = False, closed = False, loaded = True,
      permits = (\<lambda>a. 0), sem_count = 1,
      instances = [(''master'', 0)], windows = [''master''],
      main_level = 1, idle = [], mp_idle_add = [], trace = [], log = []\<rparr>"

section \<open>Notions used in the statements\<close>

text \<open>
  The actions of a teardown that goes through, in order: the releases follow the
  table of pending evaluations, the removal from \<^verbatim>\<open>windows\<close> happens when the window is
  in the list, and the main loop is stopped when the table of instances is empty after
  the deletion.
\<close>

definition teardown_trace :: "nat \<Rightarrow> state \<Rightarrow> action list" where
  "teardown_trace pending st =
     [Closing_set]
     @ map (\<lambda>e. Semaphore_release (semaphore e)) (map snd (js_results st))
     @ replicate pending Main_iteration
     @ [Window_destroy, Instances_del (uid st)]
     @ (if uid st \<in> set (windows st) then [Windows_remove (uid st)] else [])
     @ [Closed_set]
     @ (if AList.delete (uid st) (instances st) = [] then [Main_quit] else [])"

text \<open>
  What \<^verbatim>\<open>on_title_change\<close> does with a decoded title that is not a dictionary: the
  membership test \<^verbatim>\<open>'type' in js_data\<close> raises on a number, a boolean and \<^verbatim>\<open>None\<close>; on a
  string and on a list it answers, and the subscript \<^verbatim>\<open>js_data['type']\<close> raises when the
  answer is yes.
\<close>

fun non_object_outcome :: "json \<Rightarrow> unit outcome" where
  "non_object_outcome (JString s) =
     (if substring ''type'' s then Raise (TypeError BadIndex) else Return ())"
| "non_object_outcome (JArray xs) =
     (if JString ''type'' \<in> set xs then Raise (TypeError BadIndex) else Return ())"
| "non_object_outcome v = Raise (TypeError NotIterable)"

fun is_object :: "json \<Rightarrow> bool" where
  "is_object (JObject kvs) = True"
| "is_object v = False"

text \<open>
  The parameter that \<^verbatim>\<open>js_bridge_call\<close> receives for an invoke payload with the bindings
  \<open>kvs\<close>: \<^verbatim>\<open>None\<close> when the payload has no \<^verbatim>\<open>param\<close> or has the text \<^verbatim>\<open>'undefined'\<close>
  there.
\<close>

definition invoke_param :: "(string \<times> json) list \<Rightarrow> json" where
  "invoke_param kvs =
     (case map_of kvs ''param'' of
        None \<Rightarrow> JNull
      | Some p \<Rightarrow> if p = JString ''undefined'' then JNull else p)"

text \<open>Two native handlers: one gives the number 1, the other the string \<^verbatim>\<open>'1'\<close>.\<close>

definition gives_int_1 :: "json \<Rightarrow> json \<Rightarrow> json \<Rightarrow> prim outcome" where
  "gives_int_1 func_name param value_id = Return (PInt 1)"

definition gives_str_1 :: "json \<Rightarrow> json \<Rightarrow> json \<Rightarrow> prim outcome" where
  "gives_str_1 func_name param value_id = Return (PStr ''1'')"

text \<open>The user picks \<^verbatim>\<open>/tmp/a\<close> in a chooser and confirms; the user cancels a chooser.\<close>

definition picks_tmp_a :: chooser where
  "picks_tmp_a = \<lparr>answer = RESPONSE_OK, get_filename = Some ''/tmp/a'', get_filenames = [''/tmp/a'']\<rparr>"

definition cancels :: chooser where
  "cancels = \<lparr>answer = RESPONSE_CANCEL, get_filename = None, get_filenames = []\<rparr>"

text \<open>
  How a call that was waiting in \<^verbatim>\<open>acquire\<close> ends once it has its permit, given
  \<^verbatim>\<open>gtk.main_level()\<close> and the result stored in its entry: \<^verbatim>\<open>None\<close> when the main loop
  is gone, the decoded result (or the exception of the decoder) otherwise.
\<close>

definition waiter_outcome :: "cfg \<Rightarrow> nat \<Rightarrow> json \<Rightarrow> ejs" where
  "waiter_outcome c level r =
     (if level = 0 then Ejs_returned JNull
      else case decode_result c r of
             Raise e \<Rightarrow> Ejs_raised e
           | Return v \<Rightarrow> Ejs_returned v)"



definition loading_state :: state where
  "loading_state = sample_state\<lparr>loaded := False\<rparr>"

definition closed_during_call :: "ejs \<times> state" where
  "closed_during_call =
     (case evaluate_js_run sample_cfg 4 (Ejs_start ''1+1'' ''c2'') sample_state of
        (t1, s1) \<Rightarrow> evaluate_js_run sample_cfg 4 t1 (snd (close_window 0 s1)))"

definition closed_before_loaded :: "ejs \<times> state" where
  "closed_before_loaded =
     (case evaluate_js_run sample_cfg 4 (Ejs_start ''1+1'' ''c2'') loading_state of
        (t1, s1) \<Rightarrow> evaluate_js_run sample_cfg 4 t1 (snd (close_window 0 s1)))"

section \<open>Facts about teardown\<close>

lemma release_all_fields [simp]:
  "uid (release_all es st) = uid st"
  "confirm_close (release_all es st) = confirm_close st"
  "js_results (release_all es st) = js_results st"
  "closing (release_all es st) = closing st"
  "closed (release_all es st) = closed st"
  "loaded (release_all es st) = loaded st"
  "sem_count (release_all es st) = sem_count st"
  "instances (release_all es st) = instances st"
  "windows (release_all es st) = windows st"
  "main_level (release_all es st) = main_level st"
  "idle (release_all es st) = idle st"
  "mp_idle_add (release_all es st) = mp_idle_add st"
  "log (release_all es st) = log st"
  by (induction es arbitrary: st; simp add: semaphore_release_def emit_def)+

lemma release_all_trace [simp]:
  "trace (release_all es st) = trace st @ map (\<lambda>e. Semaphore_release (semaphore e)) es"
  by (induction es arbitrary: st) (simp_all add: semaphore_release_def emit_def)

lemma main_iterations_fields [simp]:
  "uid (main_iterations n st) = uid st"
  "confirm_close (main_iterations n st) = confirm_close st"
  "js_results (main_iterations n st) = js_results st"
  "closing (main_iterations n st) = closing st"
  "closed (main_iterations n st) = closed st"
  "loaded (main_iterations n st) = loaded st"
  "permits (main_iterations n st) = permits st"
  "sem_count (main_iterations n st) = sem_count st"
  "instances (main_iterations n st) = instances st"
  "windows (main_iterations n st) = windows st"
  "main_level (main_iterations n st) = main_level st"
  "idle (main_iterations n st) = idle st"
  "mp_idle_add (main_iterations n st) = mp_idle_add st"
  "log (main_iterations n st) = log st"
  by (induction n arbitrary: st; simp add: emit_def)+

lemma main_iterations_trace [simp]:
  "trace (main_iterations n st) = trace st @ replicate n Main_iteration"
  by (induction n arbitrary: st) (simp_all add: emit_def replicate_append_same)

lemma close_window_live:
  assumes "map_of (instances st) (uid st) = Some v"
  shows "fst (close_window pending st) = Return ()"
    and "trace (snd (close_window pending st)) = trace st @ teardown_trace pending st"
    and "instances (snd (close_window pending st)) = AList.delete (uid st) (instances st)"
    and "windows (snd (close_window pending st)) = remove1 (uid st) (windows st)"
    and "closing (snd (close_window pending st))"
    and "closed (snd (close_window pending st))"
    and "main_level (snd (close_window pending st)) =
           (if AList.delete (uid st) (instances st) = [] then main_level st - 1
            else main_level st)"
    and "js_results (snd (close_window pending st)) = js_results st"
    and "loaded (snd (close_window pending st)) = loaded st"
    and "idle (snd (close_window pending st)) = idle st"
  using assms
  by (auto simp: close_window_def Let_def emit_def main_quit_def teardown_trace_def
      remove1_idem)

text \<open>
  C4. Teardown of a live window (its uid is in the table of instances) does, in this
  order: set \<open>closing\<close>, release the semaphore of every entry of the table of pending
  evaluations, run the pending iterations of the main loop, destroy the native window,
  delete the uid from the table of instances, remove the window from the global list,
  set \<open>closed\<close>, and stop the main loop exactly when no instance remains. The deletion
  from the table of instances comes before \<open>closed\<close> is set.
\<close>

theorem close_window_order:
  "map_of (instances st) (uid st) \<noteq> None \<Longrightarrow>
     fst (close_window pending st) = Return ()
     \<and> trace (snd (close_window pending st)) = trace st @ teardown_trace pending st
     \<and> closing (snd (close_window pending st))
     \<and> instances (snd (close_window pending st)) = AList.delete (uid st) (instances st)
     \<and> map_of (instances (snd (close_window pending st))) (uid st) = None
     \<and> windows (snd (close_window pending st)) = remove1 (uid st) (windows st)
     \<and> closed (snd (close_window pending st))
     \<and> main_level (snd (close_window pending st)) =
           (if instances (snd (close_window pending st)) = [] then main_level st - 1
            else main_level st)"
proof -
  assume "map_of (instances st) (uid st) \<noteq> None"
  then obtain v where v: "map_of (instances st) (uid st) = Some v"
    by auto
  show ?thesis
    by (simp add: close_window_live [OF v] delete_conv)
qed

theorem close_window_order_witness:
  "map_of (instances sample_state) (uid sample_state) \<noteq> None
   \<and> trace (snd (close_window 2 sample_state)) =
       [Closing_set, Semaphore_release 0, Main_iteration, Main_iteration, Window_destroy,
        Instances_del ''master'', Windows_remove ''master'', Closed_set, Main_quit]
   \<and> instances (snd (close_window 2 sample_state)) = []
   \<and> closed (snd (close_window 2 sample_state))
   \<and> main_level (snd (close_window 2 sample_state)) = 0"
  using close_window_order [of sample_state 2]
  by (simp add: sample_state_def teardown_trace_def numeral_2_eq_2)

text \<open>
  C5. A close request (the \<^verbatim>\<open>delete-event\<close> of the window): without \<open>confirm_close\<close>
  it is teardown itself; with \<open>confirm_close\<close> the dialog is run first, teardown follows
  when the answer is OK, and on any other answer (cancel, dismissal) nothing happens but
  the dialog being shown and destroyed: \<open>closing\<close> and \<open>closed\<close>, the table of instances,
  the list of windows, the pending evaluations and the semaphores are as before.
\<close>

theorem delete_event_confirm:
  "(\<not> confirm_close st \<longrightarrow>
      snd (delete_event ans pending st) = snd (close_window pending st)
      \<and> fst (delete_event ans pending st)
          = (case fst (close_window pending st) of Raise e \<Rightarrow> Raise e | Return u \<Rightarrow> Return None))
   \<and> (confirm_close st \<and> ans = RESPONSE_OK \<longrightarrow>
        (case close_window pending (emit Dialog_run st) of
           (Raise e, st') \<Rightarrow> delete_event ans pending st = (Raise e, st')
         | (Return u, st') \<Rightarrow>
             delete_event ans pending st = (Return (Some True), emit Dialog_destroy st')))
   \<and> (confirm_close st \<and> ans \<noteq> RESPONSE_OK \<longrightarrow>
        delete_event ans pending st
          = (Return (Some True), st\<lparr>trace := trace st @ [Dialog_run, Dialog_destroy]\<rparr>)
        \<and> closing (snd (delete_event ans pending st)) = closing st
        \<and> closed (snd (delete_event ans pending st)) = closed st
        \<and> instances (snd (delete_event ans pending st)) = instances st
        \<and> windows (snd (delete_event ans pending st)) = windows st
        \<and> js_results (snd (delete_event ans pending st)) = js_results st
        \<and> permits (snd (delete_event ans pending st)) = permits st
        \<and> main_level (snd (delete_event ans pending st)) = main_level st)"
  by (auto simp: delete_event_def on_destroy_def emit_def Let_def
      split: prod.splits outcome.splits)

theorem delete_event_confirm_witness:
  "confirm_close sample_state
   \<and> \<not> confirm_close (sample_state\<lparr>confirm_close := False\<rparr>)
   \<and> RESPONSE_CANCEL \<noteq> RESPONSE_OK
   \<and> delete_event RESPONSE_CANCEL 0 sample_state
       = (Return (Some True), sample_state\<lparr>trace := [Dialog_run, Dialog_destroy]\<rparr>)
   \<and> closed (snd (delete_event RESPONSE_CANCEL 0 sample_state)) = False
   \<and> instances (snd (delete_event RESPONSE_CANCEL 0 sample_state)) = [(''master'', 0)]
   \<and> trace (snd (delete_event RESPONSE_OK 0 sample_state))
       = [Dialog_run, Closing_set, Semaphore_release 0, Window_destroy,
          Instances_del ''master'', Windows_remove ''master'', Closed_set, Main_quit,
          Dialog_destroy]
   \<and> closed (snd (delete_event RESPONSE_OK 0 sample_state))
   \<and> instances (snd (delete_event RESPONSE_OK 0 sample_state)) = []
   \<and> snd (delete_event RESPONSE_CANCEL 0 (sample_state\<lparr>confirm_close := False\<rparr>))
       = snd (close_window 0 (sample_state\<lparr>confirm_close := False\<rparr>))"
  using delete_event_confirm [of sample_state RESPONSE_CANCEL 0]
    delete_event_confirm [of sample_state RESPONSE_OK 0]
    delete_event_confirm [of "sample_state\<lparr>confirm_close := False\<rparr>" RESPONSE_CANCEL 0]
  by (simp add: sample_state_def close_window_def emit_def main_quit_def Let_def
      semaphore_release_def)

section \<open>Facts about waiting calls and teardown\<close>




lemma close_window_js_results [simp]:
  "js_results (snd (close_window pending st)) = js_results st"
  by (simp add: close_window_def Let_def emit_def main_quit_def)

lemma close_window_loaded [simp]:
  "loaded (snd (close_window pending st)) = loaded st"
  by (simp add: close_window_def Let_def emit_def main_quit_def)

lemma close_window_idle [simp]:
  "idle (snd (close_window pending st)) = idle st"
  by (simp add: close_window_def Let_def emit_def main_quit_def)






lemma decode_result_none [simp]: "decode_result c JNull = Return JNull"
  by (simp add: decode_result_def)



section \<open>Facts about a call\<close>

lemma evaluate_js_waits_for_loaded:
  "\<not> loaded st \<Longrightarrow> evaluate_js_step c (Ejs_wait_loaded u a s) st = None"
  by simp

lemma evaluate_js_enqueues_when_loaded:
  "evaluate_js_step c t st = Some (t', st') \<Longrightarrow> idle st' \<noteq> idle st \<Longrightarrow> loaded st"
  by (cases t) (auto simp: Let_def split: if_splits option.splits outcome.splits)

text \<open>
  C2 on the code. The page of the window is still loading when the call starts, and the
  window is closed before the page has loaded. Teardown has released the semaphore of
  the call, but the call is in \<^verbatim>\<open>self.loaded.wait()\<close>: \<open>loaded\<close> is not set, the main loop
  has stopped and dispatches nothing, and the call cannot move. The script was never
  submitted.
\<close>

theorem evaluate_js_blocked_after_close:
  "fst closed_before_loaded = Ejs_wait_loaded ''c2'' 1 ''1+1''
   \<and> evaluate_js_step sample_cfg (fst closed_before_loaded) (snd closed_before_loaded) = None
   \<and> main_loop_step sample_cfg (snd closed_before_loaded) = None
   \<and> closed (snd closed_before_loaded)
   \<and> \<not> loaded (snd closed_before_loaded)
   \<and> main_level (snd closed_before_loaded) = 0
   \<and> permits (snd closed_before_loaded) 1 = 1
   \<and> trace (snd closed_before_loaded)
       = [Closing_set, Semaphore_release 0, Semaphore_release 1, Window_destroy,
          Instances_del ''master'', Windows_remove ''master'', Closed_set, Main_quit]"
  by (simp add: closed_before_loaded_def loading_state_def sample_state_def sample_cfg_def
      eval_nat_numeral close_window_def Let_def emit_def main_quit_def semaphore_release_def
      main_loop_step_def old_webkit_def)

text \<open>
  C1 as it stands fails when the window is closed during the call: the call
  returns \<^verbatim>\<open>None\<close> and its entry is still in the table.
\<close>

theorem evaluate_js_entry_left_after_close:
  "fst closed_during_call = Ejs_returned JNull
   \<and> map_of (js_results (snd closed_during_call)) ''c2''
       = Some \<lparr>semaphore = 1, result = JNull\<rparr>"
  by (simp add: closed_during_call_def sample_state_def sample_cfg_def
      eval_nat_numeral close_window_def Let_def emit_def main_quit_def semaphore_release_def
      old_webkit_def)

text \<open>
  C1, as the code has it. A call stores an entry with a new semaphore without permits and
  no result under its call id; it waits until \<open>loaded\<close> is set and then queues the
  submission of the script on the UI loop, which submits it (wrapped for the title side
  channel when the renderer is old); it waits for a permit of its semaphore. Then, when
  the main loop is gone, it returns \<^verbatim>\<open>None\<close> and leaves the table as it is. Otherwise it
  decodes the stored result: \<^verbatim>\<open>None\<close>, \<^verbatim>\<open>'undefined'\<close> and \<^verbatim>\<open>'null'\<close> give \<^verbatim>\<open>None\<close>, the
  empty string gives the empty string, any other string is decoded as JSON; when that
  gives a value the entry is deleted and the value returned, and when the decoder raises
  the exception leaves the call with the entry still in the table.
\<close>

theorem evaluate_js_contract:
  "(case evaluate_js_step c (Ejs_start script u) st of
      None \<Rightarrow> False
    | Some (t, st') \<Rightarrow>
        t = Ejs_wait_loaded u (sem_count st)
              (if old_webkit c then title_script u script else script)
        \<and> map_of (js_results st') u = Some \<lparr>semaphore = sem_count st, result = JNull\<rparr>
        \<and> permits st' (sem_count st) = 0
        \<and> idle st' = idle st \<and> trace st' = trace st)
   \<and> evaluate_js_step c (Ejs_wait_loaded u a s) st
       = (if loaded st
          then Some (Ejs_acquire u a, st\<lparr>idle := idle st @ [Idle_evaluate_js s u]\<rparr>)
          else None)
   \<and> run_idle c (Idle_evaluate_js s u) st
       = (Return (),
          st\<lparr>trace := trace st @ [Run_javascript s (if old_webkit c then None else Some u)]\<rparr>)
   \<and> evaluate_js_step c (Ejs_acquire u a) st
       = (if permits st a = 0 then None
          else Some (Ejs_resume u, st\<lparr>permits := (permits st)(a := permits st a - 1)\<rparr>))
   \<and> (main_level st = 0 \<longrightarrow>
        evaluate_js_step c (Ejs_resume u) st = Some (Ejs_returned JNull, st))
   \<and> (main_level st \<noteq> 0 \<and> map_of (js_results st) u = Some e \<longrightarrow>
        (case decode_result c (result e) of
           Return v \<Rightarrow>
             evaluate_js_step c (Ejs_resume u) st
               = Some (Ejs_returned v, st\<lparr>js_results := AList.delete u (js_results st)\<rparr>)
             \<and> map_of (AList.delete u (js_results st)) u = None
         | Raise err \<Rightarrow>
             evaluate_js_step c (Ejs_resume u) st = Some (Ejs_raised err, st)))
   \<and> decode_result c JNull = Return JNull
   \<and> decode_result c (JString ''undefined'') = Return JNull
   \<and> decode_result c (JString ''null'') = Return JNull
   \<and> decode_result c (JString []) = Return (JString [])
   \<and> (x \<noteq> ''undefined'' \<and> x \<noteq> ''null'' \<and> x \<noteq> [] \<longrightarrow>
        decode_result c (JString x)
          = (case json_loads c x of None \<Rightarrow> Raise ValueError | Some v \<Rightarrow> Return v))"
proof -
  have start: "case evaluate_js_step c (Ejs_start script u) st of
      None \<Rightarrow> False
    | Some (t, st') \<Rightarrow>
        t = Ejs_wait_loaded u (sem_count st)
              (if old_webkit c then title_script u script else script)
        \<and> map_of (js_results st') u = Some \<lparr>semaphore = sem_count st, result = JNull\<rparr>
        \<and> permits st' (sem_count st) = 0
        \<and> idle st' = idle st \<and> trace st' = trace st"
    by (simp add: Let_def update_conv')
  have resume: "main_level st \<noteq> 0 \<and> map_of (js_results st) u = Some e \<longrightarrow>
        (case decode_result c (result e) of
           Return v \<Rightarrow>
             evaluate_js_step c (Ejs_resume u) st
               = Some (Ejs_returned v, st\<lparr>js_results := AList.delete u (js_results st)\<rparr>)
             \<and> map_of (AList.delete u (js_results st)) u = None
         | Raise err \<Rightarrow>
             evaluate_js_step c (Ejs_resume u) st = Some (Ejs_raised err, st))"
    by (simp add: delete_conv split: outcome.splits)
  have decode: "x \<noteq> ''undefined'' \<and> x \<noteq> ''null'' \<and> x \<noteq> [] \<longrightarrow>
        decode_result c (JString x)
          = (case json_loads c x of None \<Rightarrow> Raise ValueError | Some v \<Rightarrow> Return v)"
    by (simp add: decode_result_def)
  show ?thesis
    using start resume decode
    by (simp add: emit_def decode_result_def)
qed

theorem evaluate_js_contract_witness:
  "main_level (sample_state\<lparr>main_level := 0\<rparr>) = 0
   \<and> evaluate_js_step sample_cfg (Ejs_resume ''c1'') (sample_state\<lparr>main_level := 0\<rparr>)
       = Some (Ejs_returned JNull, sample_state\<lparr>main_level := 0\<rparr>)
   \<and> main_level (sample_state\<lparr>js_results := [(''c1'', \<lparr>semaphore = 0, result = JString ''42''\<rparr>)]\<rparr>) \<noteq> 0
   \<and> ''42'' \<noteq> ''undefined'' \<and> ''42'' \<noteq> ''null'' \<and> ''42'' \<noteq> []
   \<and> decode_result sample_cfg (JString ''42'') = Return (JInt 42)
   \<and> evaluate_js_step sample_cfg (Ejs_resume ''c1'')
        (sample_state\<lparr>js_results := [(''c1'', \<lparr>semaphore = 0, result = JString ''42''\<rparr>)]\<rparr>)
       = Some (Ejs_returned (JInt 42), sample_state\<lparr>js_results := []\<rparr>)
   \<and> evaluate_js_step sample_cfg (Ejs_wait_loaded ''c1'' 0 ''1+1'') loading_state = None"
  using evaluate_js_contract [where c = sample_cfg and u = "''c1''"
      and st = "sample_state\<lparr>main_level := 0\<rparr>"]
    evaluate_js_contract [where c = sample_cfg and u = "''c1''" and x = "''42''"
      and e = "\<lparr>semaphore = 0, result = JString ''42''\<rparr>"
      and st = "sample_state\<lparr>js_results := [(''c1'', \<lparr>semaphore = 0, result = JString ''42''\<rparr>)]\<rparr>"]
    evaluate_js_contract [where c = sample_cfg and u = "''c1''" and a = 0 and s = "''1+1''"
      and st = loading_state]
  by (simp add: sample_state_def sample_cfg_def sample_loads_def loading_state_def)

section \<open>The two ways a result comes back\<close>

text \<open>
  With a renderer that reports results, the completion callback stores the text of the
  value and releases the semaphore, and the call that waits ends with the decoded value,
  its entry gone from the table.
\<close>

lemma evaluate_js_callback_completes:
  assumes entry: "map_of (js_results st) u = Some e" and level: "main_level st \<noteq> 0"
  shows "fst (evaluate_js_callback u a val st) = Return ()"
    and "fst (evaluate_js_run c 2 (Ejs_acquire u a) (snd (evaluate_js_callback u a val st)))
           = waiter_outcome c (main_level st) (case val of None \<Rightarrow> JNull | Some s \<Rightarrow> JString s)"
    and "decode_result c (case val of None \<Rightarrow> JNull | Some s \<Rightarrow> JString s) = Return v \<Longrightarrow>
           map_of (js_results (snd (evaluate_js_run c 2 (Ejs_acquire u a)
                     (snd (evaluate_js_callback u a val st))))) u = None"
  using assms
  by (auto simp: evaluate_js_callback_def semaphore_release_def emit_def eval_nat_numeral
      update_conv' delete_conv waiter_outcome_def split: outcome.splits option.splits)

text \<open>
  With an old renderer the result comes as a title \<^verbatim>\<open>{"type": "eval", "uid": ..., "result": ...}\<close>:
  the callback stores the decoded result in the entry of the call and releases its
  semaphore.
\<close>

lemma on_title_change_eval:
  assumes "old_webkit c" and "json_loads c t = Some (JObject kvs)"
    and "map_of kvs ''type'' = Some (JString ''eval'')"
    and "map_of kvs ''uid'' = Some (JString u)"
    and "map_of (js_results st) u = Some e"
  shows "on_title_change c (Some t) st =
           (Return (),
            semaphore_release (semaphore e)
              (st\<lparr>js_results :=
                    AList.update u
                      (e\<lparr>result := (case map_of kvs ''result'' of None \<Rightarrow> JNull | Some r \<Rightarrow> r)\<rparr>)
                      (js_results st)\<rparr>))"
  using assms
  by (cases "map_of kvs ''result''")
    (simp_all add: on_title_change_def title_dispatch_def title_eval_def py_get_or_none_def)

text \<open>
  \<open>loaded\<close> is set by \<^verbatim>\<open>create_bridge\<close>, which the main loop runs after \<^verbatim>\<open>_set_js_api\<close> has
  queued it, and cleared by a navigation.
\<close>

lemma create_bridge_sets_loaded:
  "main_level st \<noteq> 0 \<Longrightarrow> idle st = [] \<Longrightarrow>
     map_option (\<lambda>r. loaded (snd r)) (main_loop_step c (p_set_js_api st)) = Some True"
  by (simp add: main_loop_step_def p_set_js_api_def emit_def)

lemma navigation_clears_loaded:
  "\<not> loaded (load_url url st)" "\<not> loaded (load_html content base_uri st)"
  by (simp_all add: load_url_def load_html_def emit_def)

lemma create_file_dialog_cancel_sample:
  "create_file_dialog sample_cfg OPEN_DIALOG ''/tmp'' True [] [] ''master'' cancels sample_state
     = Some Sent_none"
  by (simp add: create_file_dialog_def p_create_file_dialog_def
      BrowserView_create_file_dialog_def add_file_filters_def cancels_def
      sample_cfg_def sample_state_def)

section \<open>Facts about the title side channel\<close>



lemma title_dispatch_non_object:
  "\<not> is_object v \<Longrightarrow> title_dispatch c v st = (non_object_outcome v, st)"
  by (cases v) (simp_all add: title_dispatch_def)

text \<open>
  C10, as the code has it. A title that decodes to a number, a boolean or \<^verbatim>\<open>None\<close> makes
  the membership test raise a \<^verbatim>\<open>TypeError\<close> that leaves the callback. A title that
  decodes to a string or a list passes the test: the callback returns when \<^verbatim>\<open>'type'\<close>
  does not occur in it, and the subscript raises a \<^verbatim>\<open>TypeError\<close> that leaves the
  callback when it does. The state is untouched in every case.
\<close>

theorem on_title_change_non_object:
  "json_loads c t = Some v \<Longrightarrow> \<not> is_object v \<Longrightarrow>
     on_title_change c (Some t) st = (non_object_outcome v, st)
     \<and> (v = JNull \<or> v = JBool b \<or> v = JInt i \<or> v = JFloat r
          \<longrightarrow> on_title_change c (Some t) st = (Raise (TypeError NotIterable), st))"
proof -
  assume dec: "json_loads c t = Some v" and obj: "\<not> is_object v"
  have ne: "non_object_outcome v \<noteq> Raise ValueError"
    by (cases v) simp_all
  have "on_title_change c (Some t) st = (non_object_outcome v, st)"
    using ne by (simp add: on_title_change_def dec title_dispatch_non_object [OF obj]
        split: outcome.splits error.splits)
  then show ?thesis
    by auto
qed

theorem on_title_change_non_object_witness:
  "json_loads sample_cfg ''42'' = Some (JInt 42) \<and> \<not> is_object (JInt 42)
   \<and> on_title_change sample_cfg (Some ''42'') sample_state
       = (Raise (TypeError NotIterable), sample_state)"
  using on_title_change_non_object [of sample_cfg "''42''" "JInt 42" sample_state _ 42]
  by (simp add: sample_cfg_def sample_loads_def)

text \<open>
  C10 as it stands fails on the title \<^verbatim>\<open>"My Page"\<close> (with its quotes, a JSON
  string) and on \<^verbatim>\<open>[1]\<close>: both are valid JSON and no dictionaries, and the callback returns
  without raising.
\<close>

theorem on_title_change_string_title_returns:
  \<open>json_loads sample_cfg ''"My Page"'' = Some (JString ''My Page'')
   \<and> on_title_change sample_cfg (Some ''"My Page"'') sample_state = (Return (), sample_state)
   \<and> json_loads sample_cfg ''[1]'' = Some (JArray [JInt 1])
   \<and> on_title_change sample_cfg (Some ''[1]'') sample_state = (Return (), sample_state)\<close>
  by (simp add: on_title_change_def title_dispatch_def sample_cfg_def sample_loads_def
      substring_def)

lemma py_in_object [simp]:
  "py_in k (JObject kvs) = Return (map_of kvs k \<noteq> None)"
  by simp

lemma title_invoke_object:
  assumes "map_of kvs ''function'' = Some f" and "map_of kvs ''id'' = Some v"
    and "js_bridge_call c f (invoke_param kvs) v = Return r"
  shows "title_invoke c (JObject kvs) st =
           (Return (),
            st\<lparr>trace := trace st @ [Bridge_call f (invoke_param kvs) v,
                                     Run_javascript (return_val_code c r) None]\<rparr>)"
proof (cases "map_of kvs ''param''")
  case None
  with assms show ?thesis
    by (simp add: title_invoke_def py_get_or_none_def JSBridge_call_def invoke_param_def
        emit_def Let_def)
next
  case (Some p)
  with assms show ?thesis
    by (simp add: title_invoke_def py_get_or_none_def JSBridge_call_def invoke_param_def
        emit_def Let_def)
qed

text \<open>
  C7, as the code has it. For an invoke payload with a function \<open>f\<close> and an id \<open>v\<close>,
  \<^verbatim>\<open>js_bridge_call\<close> is called with \<open>f\<close>, with the payload's parameter (\<^verbatim>\<open>None\<close> when it is
  missing or is the text \<^verbatim>\<open>'undefined'\<close>) and with \<open>v\<close>; when it gives \<open>r\<close>, the script
  run in the page assigns to \<^verbatim>\<open>pywebview._bridge.return_val\<close> the string literal made of
  \<^verbatim>\<open>escape_string(str(r))\<close>, and nothing else changes.
\<close>

theorem on_title_change_invoke:
  \<open>json_loads c t = Some (JObject kvs) \<Longrightarrow>
   map_of kvs ''type'' = Some (JString ''invoke'') \<Longrightarrow>
   map_of kvs ''function'' = Some f \<Longrightarrow>
   map_of kvs ''id'' = Some v \<Longrightarrow>
   js_bridge_call c f (invoke_param kvs) v = Return r \<Longrightarrow>
     on_title_change c (Some t) st =
       (Return (),
        st\<lparr>trace := trace st @
               [Bridge_call f (invoke_param kvs) v,
                Run_javascript
                  (''pywebview._bridge.return_val = "'' @ escape_string c (py_str r) @ ''";'')
                  None]\<rparr>)\<close>
  by (simp add: on_title_change_def title_dispatch_def title_invoke_object return_val_code_def)

lemma int_str_1: "int_str 1 = ''1''"
  by code_simp

theorem on_title_change_invoke_witness:
  \<open>json_loads sample_cfg ''{"type": "invoke", "function": "f", "id": "x1", "param": "hello"}''
     = Some (JObject [(''type'', JString ''invoke''), (''function'', JString ''f''),
                      (''id'', JString ''x1''), (''param'', JString ''hello'')])
   \<and> js_bridge_call sample_cfg (JString ''f'') (JString ''hello'') (JString ''x1'') = Return PNone
   \<and> on_title_change sample_cfg
        (Some ''{"type": "invoke", "function": "f", "id": "x1", "param": "hello"}'') sample_state
       = (Return (),
          sample_state\<lparr>trace :=
            [Bridge_call (JString ''f'') (JString ''hello'') (JString ''x1''),
             Run_javascript ''pywebview._bridge.return_val = "None";'' None]\<rparr>)\<close>
  using on_title_change_invoke [of sample_cfg
      \<open>''{"type": "invoke", "function": "f", "id": "x1", "param": "hello"}''\<close>
      "[(''type'', JString ''invoke''), (''function'', JString ''f''),
        (''id'', JString ''x1''), (''param'', JString ''hello'')]"
      "JString ''f''" "JString ''x1''" PNone sample_state]
  by (simp add: sample_cfg_def sample_loads_def invoke_param_def sample_state_def)

lemma return_val_code_conflates:
  "return_val_code c (PInt 1) = return_val_code c (PStr ''1'')"
  "return_val_code c PNone = return_val_code c (PStr ''None'')"
  "return_val_code c (PBool True) = return_val_code c (PStr ''True'')"
  by (simp_all add: return_val_code_def int_str_1)

text \<open>
  C7 as it stands fails twice. An invoke payload whose parameter is the text
  \<^verbatim>\<open>'undefined'\<close> reaches the handler with \<^verbatim>\<open>None\<close>. And a handler that gives the number 1
  and a handler that gives the string \<^verbatim>\<open>'1'\<close> make the callback run the same script, so
  whatever the page does with it cannot give back the native value in both cases.
\<close>

theorem on_title_change_invoke_not_exact:
  \<open>trace (snd (on_title_change sample_cfg
        (Some ''{"type": "invoke", "function": "f", "id": "x1", "param": "undefined"}'')
        sample_state))
     = [Bridge_call (JString ''f'') JNull (JString ''x1''),
        Run_javascript ''pywebview._bridge.return_val = "None";'' None]
   \<and> on_title_change (sample_cfg\<lparr>js_bridge_call := gives_int_1\<rparr>)
        (Some ''{"type": "invoke", "function": "f", "id": "x1", "param": "hello"}'') sample_state
     = on_title_change (sample_cfg\<lparr>js_bridge_call := gives_str_1\<rparr>)
        (Some ''{"type": "invoke", "function": "f", "id": "x1", "param": "hello"}'') sample_state
   \<and> trace (snd (on_title_change (sample_cfg\<lparr>js_bridge_call := gives_int_1\<rparr>)
        (Some ''{"type": "invoke", "function": "f", "id": "x1", "param": "hello"}'')
        sample_state))
     = [Bridge_call (JString ''f'') (JString ''hello'') (JString ''x1''),
        Run_javascript ''pywebview._bridge.return_val = "1";'' None]
   \<and> PInt 1 \<noteq> PStr ''1''\<close>
  by (simp add: on_title_change_def title_dispatch_def title_invoke_def py_get_or_none_def
      JSBridge_call_def return_val_code_def int_str_1 emit_def Let_def
      sample_cfg_def sample_loads_def sample_state_def gives_int_1_def gives_str_1_def)

section \<open>Facts about the module functions\<close>

text \<open>
  C6 on the code. With several processes, \<^verbatim>\<open>move\<close> puts the deferred move with
  \<open>(x, y, uid)\<close> on the worker's queue, and the worker's call of it queues on the UI loop
  the callback that moves the window of \<open>uid\<close> to \<open>(x, y)\<close>.
\<close>

lemma move_multiprocessing:
  "multiprocessing c \<Longrightarrow>
     move c x y u st = (Return (), st\<lparr>mp_idle_add := mp_idle_add st @ [Deferred_move x y u]\<rparr>)"
  by (simp add: move_def)

lemma run_deferred_move:
  "idle (run_deferred (Deferred_move x y u) st) = idle st @ [Idle_move x y u]"
  by (simp add: p_move_def)

lemma run_idle_move:
  "map_of (instances st) u = Some v \<Longrightarrow>
     run_idle c (Idle_move x y u) st = (Return (), st\<lparr>trace := trace st @ [Window_move u x y]\<rparr>)"
  by (simp add: emit_def)

text \<open>
  C6, the single process: \<^verbatim>\<open>move(10, 20, 'master')\<close> raises \<^verbatim>\<open>NameError\<close>; nothing is
  queued on the UI loop and the state is as before.
\<close>

theorem move_single_process_raises:
  "\<not> multiprocessing sample_cfg
   \<and> move sample_cfg 10 20 ''master'' sample_state = (Raise NameError, sample_state)
   \<and> idle (snd (move sample_cfg 10 20 ''master'' sample_state)) = []"
  by (simp add: move_def sample_cfg_def sample_state_def)

lemma move_single_process:
  "\<not> multiprocessing c \<Longrightarrow> move c x y u st = (Raise NameError, st)"
  by (simp add: move_def)

text \<open>
  C9 on the code. A cancelled chooser gives \<^verbatim>\<open>None\<close>, for every type of dialog among
  the three; an open or folder dialog that is confirmed gives the tuple of the chosen
  names, in the order of \<^verbatim>\<open>get_filenames()\<close>.
\<close>

lemma create_file_dialog_cancel:
  "map_of (instances st) u = Some v \<Longrightarrow> dt \<noteq> OTHER_DIALOG \<Longrightarrow>
   add_file_filters c file_types = Return () \<Longrightarrow> answer ch \<noteq> RESPONSE_OK \<Longrightarrow>
     create_file_dialog c dt directory allow_multiple save_filename file_types u ch st
       = Some Sent_none"
  by (simp add: create_file_dialog_def p_create_file_dialog_def
      BrowserView_create_file_dialog_def)

lemma create_file_dialog_open:
  "map_of (instances st) u = Some v \<Longrightarrow> dt = OPEN_DIALOG \<or> dt = FOLDER_DIALOG \<Longrightarrow>
   add_file_filters c file_types = Return () \<Longrightarrow> answer ch = RESPONSE_OK \<Longrightarrow>
     create_file_dialog c dt directory allow_multiple save_filename file_types u ch st
       = Some (Sent_tuple (get_filenames ch))"
  by (auto simp: create_file_dialog_def p_create_file_dialog_def
      BrowserView_create_file_dialog_def)

lemma create_file_dialog_save:
  "map_of (instances st) u = Some v \<Longrightarrow>
   add_file_filters c file_types = Return () \<Longrightarrow> answer ch = RESPONSE_OK \<Longrightarrow>
   get_filename ch = Some path \<Longrightarrow>
     create_file_dialog c SAVE_DIALOG directory allow_multiple save_filename file_types u ch st
       = Some (Sent_tuple (map (\<lambda>x. [x]) path))"
  by (simp add: create_file_dialog_def p_create_file_dialog_def
      BrowserView_create_file_dialog_def)

text \<open>
  C9, the save dialog: the user picks \<^verbatim>\<open>/tmp/a\<close>, and the caller receives the tuple of
  its six characters, neither the path nor a tuple of paths.
\<close>

theorem create_file_dialog_save_characters:
  "create_file_dialog sample_cfg SAVE_DIALOG ''/tmp'' False ''a'' [] ''master'' picks_tmp_a
     sample_state
     = Some (Sent_tuple [''/'', ''t'', ''m'', ''p'', ''/'', ''a''])
   \<and> Sent_tuple [''/'', ''t'', ''m'', ''p'', ''/'', ''a''] \<noteq> Sent_tuple [''/tmp/a'']"
  by (simp add: create_file_dialog_def p_create_file_dialog_def
      BrowserView_create_file_dialog_def add_file_filters_def picks_tmp_a_def
      sample_cfg_def sample_state_def)

end
